theory Spec2Isabelle
  imports Complex_Main
begin

section \<open>The privacy engine of opacus (\<^verbatim>\<open>opacus/privacy_engine.py\<close>)\<close>

text \<open>
  The source file wires a model, an optimizer and a data loader into their
  differentially private counterparts and registers two hooks. Python objects are
  modelled as values, classes as datatype constructors (\<^verbatim>\<open>isinstance\<close> is a
  match on the constructor), closures as data holding what they capture, raised
  exceptions as \<open>Inl\<close> of a sum. A Python float is the real number it denotes, and
  every float operation of the source rounds its exact result to the nearest double
  (\<open>binary64\<close> below).
\<close>

subsection \<open>Errors\<close>

text \<open>
  \<open>ZeroDivisionError\<close> is what \<^verbatim>\<open>1 / len(data_loader)\<close> raises on an empty
  loader; \<open>ValueError\<close> is what the pre-forward hook raises (the stale-gradient error).
  \<open>AttributeError\<close> is what calling a method an object does not have raises. The other
  four are error kinds of the spec: of the accountant, the calibrator and the step
  engine.
\<close>

datatype error =
    ZeroDivisionError
  | ValueError string
  | AttributeError
  | InvalidParameterError
  | EmptyLedgerError
  | CalibrationError
  | UnclearedGradientError

subsection \<open>Floats\<close>

text \<open>
  IEEE 754 binary64 with round-to-nearest, ties to even: a positive real \<open>x\<close> with
  \<open>2\<^sup>e \<le> x < 2\<^sup>e\<^sup>+\<^sup>1\<close> is rounded to the nearest multiple of \<open>2\<^sup>e\<^sup>-\<^sup>5\<^sup>2\<close>. \<open>binade n x\<close>
  finds \<open>e\<close> by halving or doubling at most \<open>n\<close> times; 1100 steps cover every exponent
  of a double. Overflow and subnormal numbers are left out: the floats of the source are
  \<^verbatim>\<open>1 / len(...)\<close> and its products with a length or a counter, and a Python length is
  below \<open>2\<^sup>6\<^sup>3\<close>.
\<close>

definition pow2 :: "int \<Rightarrow> real" where
  "pow2 e = (if 0 \<le> e then 2 ^ nat e else 1 / 2 ^ nat (- e))"

fun binade :: "nat \<Rightarrow> real \<Rightarrow> int" where
  "binade 0 x = 0"
| "binade (Suc n) x =
     (if 2 \<le> x then binade n (x / 2) + 1
      else if x < 1 then binade n (2 * x) - 1
      else 0)"

definition round_half_even :: "real \<Rightarrow> int" where
  "round_half_even x =
     (let f = \<lfloor>x\<rfloor>; r = x - of_int f
      in if r < 1 / 2 then f else if 1 / 2 < r then f + 1 else if even f then f else f + 1)"

definition binary64 :: "real \<Rightarrow> real" where
  "binary64 x =
     (if x = 0 then 0
      else let a = \<bar>x\<bar>;
               e = binade 1100 a;
               m = round_half_even (a * pow2 (52 - e))
           in sgn x * of_int m * pow2 (e - 52))"

text \<open>
  Python's \<^verbatim>\<open>a / b\<close> on two \<^verbatim>\<open>int\<close>s (for \<open>b \<noteq> 0\<close>; the callers raise
  ZeroDivisionError before), the conversion of an \<^verbatim>\<open>int\<close> that \<^verbatim>\<open>int * float\<close> and
  \<^verbatim>\<open>float * int\<close> perform, the product of two floats, and \<^verbatim>\<open>int(x)\<close> on a float
  (truncation towards zero).
\<close>

definition float_div_nat :: "nat \<Rightarrow> nat \<Rightarrow> real" where
  "float_div_nat a b = binary64 (real a / real b)"

definition float_of_nat :: "nat \<Rightarrow> real" where
  "float_of_nat n = binary64 (real n)"

definition float_mul :: "real \<Rightarrow> real \<Rightarrow> real" where
  "float_mul x y = binary64 (x * y)"

definition py_int :: "real \<Rightarrow> int" where
  "py_int x = (if 0 \<le> x then \<lfloor>x\<rfloor> else \<lceil>x\<rceil>)"

subsection \<open>Parameters and their gradient buffers\<close>

text \<open>
  The source asks with \<^verbatim>\<open>hasattr\<close> whether an object has an attribute, whatever the
  attribute holds: an attribute is \<open>Absent\<close> or \<open>Holds\<close> a value, and \<^verbatim>\<open>hasattr\<close> is
  \<open>\<noteq> Absent\<close>. A gradient is \<open>None\<close> or a tensor; so is what \<^verbatim>\<open>grad_sample\<close> holds
  when it is there.
\<close>

datatype 'a attribute = Absent | Holds 'a

record tensor =
  data :: "real list"
  has_noise :: "bool attribute"

record param =
  requires_grad :: bool
  grad :: "tensor option attribute"
  grad_sample :: "tensor option attribute"

subsection \<open>The accountant\<close>

datatype privacy_step =
  PrivacyStep (step_noise_multiplier: real) (step_sample_rate: real)

record rdp_accountant =
  steps :: "privacy_step list"

text \<open>\<^verbatim>\<open>RDPAccountant()\<close>: a fresh accountant has an empty ledger.\<close>

definition RDPAccountant :: rdp_accountant where
  "RDPAccountant = \<lparr>steps = []\<rparr>"

text \<open>
  Modelled from the spec: \<^verbatim>\<open>RDPAccountant.step\<close> is not in the source file. The
  spec's \<^verbatim>\<open>record_step(noise_multiplier, sample_rate)\<close> appends a PrivacyStep and
  fails with InvalidParameterError if either value is non-positive or the sample rate
  exceeds one.
\<close>

definition accountant_step :: "rdp_accountant \<Rightarrow> real \<Rightarrow> real \<Rightarrow> error + rdp_accountant" where
  "accountant_step acc noise_multiplier sample_rate =
     (if noise_multiplier \<le> 0 \<or> sample_rate \<le> 0 \<or> sample_rate > 1
      then Inl InvalidParameterError
      else Inr (acc\<lparr>steps := steps acc @ [PrivacyStep noise_multiplier sample_rate]\<rparr>))"

text \<open>
  Modelled from the spec: \<^verbatim>\<open>RDPAccountant.get_privacy_spent\<close> is not in the source
  file. The spec's \<^verbatim>\<open>compute_epsilon(delta)\<close> sums, for every order \<open>\<alpha>\<close> of
  RenyiOrders, the per-step Renyi divergence bound over the ledger, converts each sum
  with \<open>\<epsilon> = \<epsilon>\<^sub>\<alpha> + log(1/\<delta>)/(\<alpha>-1)\<close> and returns the minimum over \<open>\<alpha>\<close>; it fails
  with InvalidParameterError if \<open>\<delta> \<le> 0\<close> or \<open>\<delta> \<ge> 1\<close> and with EmptyLedgerError on
  an empty ledger. The spec names the per-step bound of the subsampled Gaussian
  mechanism without giving it, and gives RenyiOrders by example only: both are
  parameters here (\<open>rdp \<alpha> \<sigma> q\<close> and \<open>orders\<close>).
\<close>

definition cumulative_rdp :: "(real \<Rightarrow> real \<Rightarrow> real \<Rightarrow> real) \<Rightarrow> privacy_step list \<Rightarrow> real \<Rightarrow> real" where
  "cumulative_rdp rdp ledger \<alpha> =
     sum_list (map (\<lambda>s. rdp \<alpha> (step_noise_multiplier s) (step_sample_rate s)) ledger)"

definition rdp_to_dp :: "(real \<Rightarrow> real \<Rightarrow> real \<Rightarrow> real) \<Rightarrow> privacy_step list \<Rightarrow> real \<Rightarrow> real \<Rightarrow> real" where
  "rdp_to_dp rdp ledger delta \<alpha> = cumulative_rdp rdp ledger \<alpha> + ln (1 / delta) / (\<alpha> - 1)"

definition compute_epsilon ::
  "(real \<Rightarrow> real \<Rightarrow> real \<Rightarrow> real) \<Rightarrow> real list \<Rightarrow> rdp_accountant \<Rightarrow> real \<Rightarrow> error + real" where
  "compute_epsilon rdp orders acc delta =
     (if delta \<le> 0 \<or> delta \<ge> 1 then Inl InvalidParameterError
      else if steps acc = [] then Inl EmptyLedgerError
      else Inr (min_list (map (rdp_to_dp rdp (steps acc) delta) orders)))"

subsection \<open>Hooks as data\<close>

text \<open>
  \<^verbatim>\<open>accountant_hook\<close> is a closure over \<^verbatim>\<open>self\<close> and \<^verbatim>\<open>sample_rate\<close>; the engine
  is passed when the hook runs, the sample rate is held in the closure.
\<close>

datatype step_hook = AccountantHook (hook_sample_rate: real)

subsection \<open>Optimizers\<close>

text \<open>
  A plain \<^verbatim>\<open>optim.Optimizer\<close> is opaque. Modelled from the spec: the class
  \<^verbatim>\<open>DPOptimizer\<close> is not in the source file; its fields are the spec's DPStepState
  together with the wrapped optimizer (\<^verbatim>\<open>optimizer.optimizer\<close> in the source) and
  the attached step hook.
\<close>

datatype optimizer =
    Optimizer string
  | DPOptimizer
      (optimizer: optimizer)
      (noise_multiplier: real)
      (max_grad_norm: real)
      (expected_batch_size: int)
      (loss_reduction: string)
      (accumulated_iterations: nat)
      (step_hook: "step_hook option")

text \<open>
  Modelled from the spec: the constructor call
  \<^verbatim>\<open>DPOptimizer(optimizer=..., noise_multiplier=..., ...)\<close> of the source; a fresh
  DPStepState has accumulated no iterations and has no hook attached.
\<close>

definition new_DPOptimizer :: "optimizer \<Rightarrow> real \<Rightarrow> real \<Rightarrow> int \<Rightarrow> string \<Rightarrow> optimizer" where
  "new_DPOptimizer opt nm mgn ebs lr = DPOptimizer opt nm mgn ebs lr 0 None"

text \<open>Modelled from the spec: \<^verbatim>\<open>attach_step_hook\<close> sets the post-step hook.\<close>

fun attach_step_hook :: "step_hook \<Rightarrow> optimizer \<Rightarrow> optimizer" where
  "attach_step_hook h (DPOptimizer opt nm mgn ebs lr k _) = DPOptimizer opt nm mgn ebs lr k (Some h)"
| "attach_step_hook h (Optimizer n) = Optimizer n"

subsection \<open>Modules\<close>

text \<open>
  \<^verbatim>\<open>partial(virtual_step_hook, optimizer=optimizer)\<close>: the forward pre-hook holds the
  optimizer it was registered with.
\<close>

datatype forward_pre_hook = VirtualStepHook optimizer

text \<open>
  A plain \<^verbatim>\<open>nn.Module\<close> has parameters and registered forward pre-hooks.
  \<^verbatim>\<open>GradSampleModule(module, batch_first=..., loss_reduction=...)\<close> wraps a module
  and is a module itself.
\<close>

datatype module =
    Module "param list" "forward_pre_hook list"
  | GradSampleModule module bool string "forward_pre_hook list"

fun parameters :: "module \<Rightarrow> param list" where
  "parameters (Module ps hs) = ps"
| "parameters (GradSampleModule m bf lr hs) = parameters m"

fun forward_pre_hooks :: "module \<Rightarrow> forward_pre_hook list" where
  "forward_pre_hooks (Module ps hs) = hs"
| "forward_pre_hooks (GradSampleModule m bf lr hs) = hs"

fun register_forward_pre_hook :: "forward_pre_hook \<Rightarrow> module \<Rightarrow> module" where
  "register_forward_pre_hook h (Module ps hs) = Module ps (hs @ [h])"
| "register_forward_pre_hook h (GradSampleModule m bf lr hs) = GradSampleModule m bf lr (hs @ [h])"

fun map_parameters :: "(param \<Rightarrow> param) \<Rightarrow> module \<Rightarrow> module" where
  "map_parameters f (Module ps hs) = Module (map f ps) hs"
| "map_parameters f (GradSampleModule m bf lr hs) = GradSampleModule (map_parameters f m) bf lr hs"

fun put_parameters :: "param list \<Rightarrow> module \<Rightarrow> module" where
  "put_parameters ps' (Module ps hs) = Module ps' hs"
| "put_parameters ps' (GradSampleModule m bf lr hs) = GradSampleModule (put_parameters ps' m) bf lr hs"

text \<open>
  Modelled from the spec: \<^verbatim>\<open>module.zero_grad()\<close> of the wrapped module is not in
  the source file. It is the GradientSampleProvider's way to clear the per-example
  gradient data: afterwards no parameter has \<^verbatim>\<open>grad_sample\<close>. What it does to a
  parameter's gradient (setting it to \<open>None\<close>, zeroing it in place) is given by neither
  the source nor the spec and is the parameter \<open>reset\<close>.
\<close>

definition zero_grad ::
  "(tensor option attribute \<Rightarrow> tensor option attribute) \<Rightarrow> module \<Rightarrow> module" where
  "zero_grad reset m = map_parameters (\<lambda>p. p\<lparr>grad := reset (grad p), grad_sample := Absent\<rparr>) m"

subsection \<open>Data loaders\<close>

text \<open>
  A loader has a length (\<^verbatim>\<open>len(data_loader)\<close>, the number of batches) and a dataset
  with a length (\<^verbatim>\<open>len(data_loader.dataset)\<close>). \<^verbatim>\<open>DPDataLoader\<close> is a subclass.
  \<^verbatim>\<open>DPDataLoader.from_data_loader\<close> is not in the source file and the spec does not
  say what the wrapper's length is: it is a parameter of the functions below.
\<close>

datatype data_loader =
    DataLoader (len: nat) (dataset_len: nat)
  | DPDataLoader (len: nat) (dataset_len: nat)

subsection \<open>The engine\<close>

datatype engine_class = PrivacyEngine | PrivacyEngineUnsafeKeepDataLoader

record privacy_engine =
  cls :: engine_class
  accountant :: rdp_accountant
  secure_mode :: bool

text \<open>\<^verbatim>\<open>__init__\<close>, for either class (the subclass does not override it).\<close>

definition init :: "engine_class \<Rightarrow> bool \<Rightarrow> privacy_engine" where
  "init c sm = \<lparr>cls = c, accountant = RDPAccountant, secure_mode = sm\<rparr>"

fun prepare_model :: "privacy_engine \<Rightarrow> module \<Rightarrow> bool \<Rightarrow> string \<Rightarrow> module" where
  "prepare_model self (GradSampleModule m bf lr hs) batch_first loss_red = GradSampleModule m bf lr hs"
| "prepare_model self (Module ps hs) batch_first loss_red =
     GradSampleModule (Module ps hs) batch_first loss_red []"

text \<open>
  \<^verbatim>\<open>_prepare_optimizer\<close>: an optimizer that is a \<^verbatim>\<open>DPOptimizer\<close> is replaced by the
  optimizer it wraps, and a new \<^verbatim>\<open>DPOptimizer\<close> is constructed in either case.
\<close>

definition prepare_optimizer :: "privacy_engine \<Rightarrow> optimizer \<Rightarrow> real \<Rightarrow> real \<Rightarrow> int \<Rightarrow> string \<Rightarrow> optimizer" where
  "prepare_optimizer self optimizer0 nm mgn ebs loss_red =
     (let optimizer1 =
            (case optimizer0 of
               DPOptimizer opt nm0 mgn0 ebs0 lr0 k0 h0 \<Rightarrow> opt
             | Optimizer n \<Rightarrow> optimizer0)
      in new_DPOptimizer optimizer1 nm mgn ebs loss_red)"

text \<open>
  \<^verbatim>\<open>_prepare_data_loader\<close>, with the override of
  \<^verbatim>\<open>PrivacyEngineUnsafeKeepDataLoader\<close> as the first case.
\<close>

definition prepare_data_loader ::
  "(data_loader \<Rightarrow> data_loader) \<Rightarrow> privacy_engine \<Rightarrow> data_loader \<Rightarrow> data_loader" where
  "prepare_data_loader from_data_loader self dl =
     (case cls self of
        PrivacyEngineUnsafeKeepDataLoader \<Rightarrow> dl
      | PrivacyEngine \<Rightarrow>
          (case dl of DPDataLoader n d \<Rightarrow> dl | DataLoader n d \<Rightarrow> from_data_loader dl))"

definition make_private ::
  "(data_loader \<Rightarrow> data_loader) \<Rightarrow> privacy_engine \<Rightarrow> module \<Rightarrow> optimizer \<Rightarrow> data_loader \<Rightarrow>
   real \<Rightarrow> real \<Rightarrow> bool \<Rightarrow> string \<Rightarrow> error + (module \<times> optimizer \<times> data_loader)" where
  "make_private from_data_loader self module0 optimizer0 data_loader0
       noise_mult max_norm batch_first loss_red =
     (let module1 = prepare_model self module0 batch_first loss_red;
          data_loader1 = prepare_data_loader from_data_loader self data_loader0
      in if len data_loader1 = 0 then Inl ZeroDivisionError
         else
           let sample_rate = float_div_nat 1 (len data_loader1);
               ebs = py_int (float_mul (float_of_nat (dataset_len data_loader1)) sample_rate);
               optimizer1 = prepare_optimizer self optimizer0 noise_mult max_norm ebs loss_red;
               optimizer2 = attach_step_hook (AccountantHook sample_rate) optimizer1;
               module2 = register_forward_pre_hook (VirtualStepHook optimizer2) module1
           in Inr (module2, optimizer2, data_loader1))"

text \<open>
  \<^verbatim>\<open>get_noise_multiplier\<close> is imported from \<^verbatim>\<open>opacus.accountants.rdp\<close> and is not
  in the source file: it is the parameter \<open>get_noise_multiplier\<close>, called with the
  keyword arguments of the source in their order (\<^verbatim>\<open>target_epsilon\<close>,
  \<^verbatim>\<open>target_delta\<close>, \<^verbatim>\<open>sample_rate\<close>, \<^verbatim>\<open>epochs\<close>, \<^verbatim>\<open>alphas\<close>, \<^verbatim>\<open>sigma_min\<close>,
  \<^verbatim>\<open>sigma_max\<close>). Python evaluates the division first, then the argument of
  \<^verbatim>\<open>make_private\<close>, then the call.
\<close>

type_synonym calibrator =
  "real \<Rightarrow> real \<Rightarrow> real \<Rightarrow> int \<Rightarrow> real list option \<Rightarrow> real option \<Rightarrow> real option \<Rightarrow> error + real"

definition make_private_with_epsilon ::
  "calibrator \<Rightarrow> (data_loader \<Rightarrow> data_loader) \<Rightarrow> privacy_engine \<Rightarrow> module \<Rightarrow> optimizer \<Rightarrow>
   data_loader \<Rightarrow> real \<Rightarrow> real \<Rightarrow> int \<Rightarrow> real \<Rightarrow> bool \<Rightarrow> string \<Rightarrow>
   real list option \<Rightarrow> real option \<Rightarrow> real option \<Rightarrow> error + (module \<times> optimizer \<times> data_loader)" where
  "make_private_with_epsilon get_noise_multiplier from_data_loader self module0 optimizer0
       data_loader0 target_epsilon target_delta epochs max_norm batch_first loss_red
       alphas sigma_min sigma_max =
     (if len data_loader0 = 0 then Inl ZeroDivisionError
      else
        let sample_rate = float_div_nat 1 (len data_loader0)
        in case get_noise_multiplier target_epsilon target_delta sample_rate epochs
                  alphas sigma_min sigma_max of
             Inl e \<Rightarrow> Inl e
           | Inr sigma \<Rightarrow>
               make_private from_data_loader self module0 optimizer0 data_loader0
                 sigma max_norm batch_first loss_red)"

text \<open>
  \<^verbatim>\<open>get_epsilon(delta, alphas=None)\<close>: the first component of what the accountant's
  \<^verbatim>\<open>get_privacy_spent(delta)\<close> returns. \<open>alphas\<close> is an argument, as in the source.
\<close>

definition get_epsilon ::
  "(real \<Rightarrow> real \<Rightarrow> real \<Rightarrow> real) \<Rightarrow> real list \<Rightarrow> privacy_engine \<Rightarrow> real \<Rightarrow> real list option \<Rightarrow> error + real" where
  "get_epsilon rdp orders self delta alphas = compute_epsilon rdp orders (accountant self) delta"

subsection \<open>The two hooks\<close>

text \<open>
  \<^verbatim>\<open>accountant_hook(optim)\<close>, with the captured sample rate and engine as arguments;
  the engine's accountant is the state it changes.
\<close>

definition accountant_hook :: "real \<Rightarrow> privacy_engine \<Rightarrow> optimizer \<Rightarrow> error + privacy_engine" where
  "accountant_hook sample_rate self optim =
     (case accountant_step (accountant self) (noise_multiplier optim)
             (float_mul sample_rate (float_of_nat (accumulated_iterations optim))) of
        Inl e \<Rightarrow> Inl e
      | Inr acc \<Rightarrow> Inr (self\<lparr>accountant := acc\<rparr>))"

text \<open>
  \<^verbatim>\<open>hasattr(p, "grad") and hasattr(p.grad, "has_noise")\<close>; \<open>None\<close> has no such
  attribute.
\<close>

definition stale :: "param \<Rightarrow> bool" where
  "stale p =
     (case grad p of
        Absent \<Rightarrow> False
      | Holds None \<Rightarrow> False
      | Holds (Some g) \<Rightarrow> has_noise g \<noteq> Absent)"

text \<open>
  The \<^verbatim>\<open>for\<close> loop of \<^verbatim>\<open>virtual_step_hook\<close>: \<open>Inl\<close> is the raise, \<open>Inr b\<close> the
  value of \<^verbatim>\<open>has_grad_sample\<close> when the loop ends (by exhaustion or by \<^verbatim>\<open>break\<close>).
\<close>

fun scan_parameters :: "param list \<Rightarrow> error + bool" where
  "scan_parameters [] = Inr False"
| "scan_parameters (p # ps) =
     (if \<not> requires_grad p then scan_parameters ps
      else if stale p then Inl (ValueError ''Not calling zero_grad breaks accounting'')
      else if grad_sample p \<noteq> Absent then Inr True
      else scan_parameters ps)"

text \<open>
  Modelled from the spec: \<^verbatim>\<open>DPOptimizer.virtual_step\<close> is not in the source file.
  The optimizer accumulates over the parameters of the module it was built for (the
  objects are shared), so the parameters are an argument and a result. By the spec's
  invariant the operation fails with UnclearedGradientError if the gradient buffer of a
  parameter it accumulates for (a trainable one) is marked as noised; otherwise
  \<open>accumulated_iterations\<close> increments and the per-example gradient buffers are cleared.
  The running aggregate it clips and sums into is tensor data outside the DPStepState. A
  plain optimizer has no such method.
\<close>

fun virtual_step :: "optimizer \<Rightarrow> param list \<Rightarrow> error + (optimizer \<times> param list)" where
  "virtual_step (DPOptimizer opt nm mgn ebs lr k h) ps =
     (if \<exists>p \<in> set ps. requires_grad p \<and> stale p then Inl UnclearedGradientError
      else Inr (DPOptimizer opt nm mgn ebs lr (Suc k) h, map (\<lambda>p. p\<lparr>grad_sample := Absent\<rparr>) ps))"
| "virtual_step (Optimizer n) ps = Inl AttributeError"

text \<open>
  \<^verbatim>\<open>virtual_step_hook(module, _, optimizer)\<close>: the loop, then
  \<^verbatim>\<open>optimizer.virtual_step()\<close> and \<^verbatim>\<open>module.zero_grad()\<close> when
  \<^verbatim>\<open>has_grad_sample\<close> is set. An exception of \<^verbatim>\<open>virtual_step\<close> leaves the hook as
  it is raised.
\<close>

definition virtual_step_hook ::
  "(tensor option attribute \<Rightarrow> tensor option attribute) \<Rightarrow> module \<Rightarrow> optimizer \<Rightarrow>
   error + (module \<times> optimizer)" where
  "virtual_step_hook reset m optim =
     (case scan_parameters (parameters m) of
        Inl e \<Rightarrow> Inl e
      | Inr has_grad_sample \<Rightarrow>
          if has_grad_sample then
            (case virtual_step optim (parameters m) of
               Inl e \<Rightarrow> Inl e
             | Inr (optim', ps') \<Rightarrow> Inr (zero_grad reset (put_parameters ps' m), optim'))
          else Inr (m, optim))"


text \<open>
  Modelled from the spec: \<^verbatim>\<open>DPOptimizer.step\<close> is not in the source file. A real
  step with no accumulated iteration is a no-op; otherwise the attached hook is invoked
  exactly once and \<open>accumulated_iterations\<close> resets to 0. The parameter update and the
  noise are outside the DPStepState.
\<close>

fun step :: "privacy_engine \<Rightarrow> optimizer \<Rightarrow> error + (privacy_engine \<times> optimizer)" where
  "step self (DPOptimizer opt nm mgn ebs lr k h) =
     (if k = 0 then Inr (self, DPOptimizer opt nm mgn ebs lr k h)
      else case h of
             None \<Rightarrow> Inr (self, DPOptimizer opt nm mgn ebs lr 0 h)
           | Some (AccountantHook sr) \<Rightarrow>
               (case accountant_hook sr self (DPOptimizer opt nm mgn ebs lr k h) of
                  Inl e \<Rightarrow> Inl e
                | Inr self' \<Rightarrow> Inr (self', DPOptimizer opt nm mgn ebs lr 0 h)))"
| "step self (Optimizer n) = Inr (self, Optimizer n)"

text \<open>
  A training loop's calls on the optimizer, run in order from a state. A virtual step
  comes with the parameters as they are when it is called (each one follows a backward
  pass of its own).
\<close>

datatype call = VirtualStep "param list" | Step

fun run :: "privacy_engine \<times> optimizer \<Rightarrow> call list \<Rightarrow> error + (privacy_engine \<times> optimizer)" where
  "run s [] = Inr s"
| "run s (VirtualStep ps # cs) =
     (case virtual_step (snd s) ps of
        Inl e \<Rightarrow> Inl e
      | Inr (optim', ps') \<Rightarrow> run (fst s, optim') cs)"
| "run s (Step # cs) = (case step (fst s) (snd s) of Inl e \<Rightarrow> Inl e | Inr s' \<Rightarrow> run s' cs)"

subsection \<open>Concrete inputs\<close>

text \<open>
  Inputs at which the theorems below are evaluated. \<open>keep_length\<close> is one possible
  \<^verbatim>\<open>from_data_loader\<close>; \<open>gaussian_rdp\<close> is one possible per-step bound (the Renyi
  divergence \<open>\<alpha> / (2 \<sigma>\<^sup>2)\<close> of the Gaussian mechanism without subsampling);
  \<open>fixed_sigma\<close> is a calibrator that answers with a given noise multiplier and
  \<open>schedule_echo\<close> one that answers with the number it received as \<^verbatim>\<open>epochs\<close>;
  \<open>set_to_none\<close> is one possible \<open>reset\<close>.
\<close>

definition keep_length :: "data_loader \<Rightarrow> data_loader" where
  "keep_length dl = DPDataLoader (len dl) (dataset_len dl)"

definition gaussian_rdp :: "real \<Rightarrow> real \<Rightarrow> real \<Rightarrow> real" where
  "gaussian_rdp \<alpha> \<sigma> q = \<alpha> / (2 * \<sigma>\<^sup>2)"

definition fixed_sigma :: "real \<Rightarrow> calibrator" where
  "fixed_sigma sigma eps delta sample_rate epochs alphas sigma_min sigma_max = Inr sigma"

definition schedule_echo :: calibrator where
  "schedule_echo eps delta sample_rate epochs alphas sigma_min sigma_max = Inr (real_of_int epochs)"


definition example_optimizer :: optimizer where
  "example_optimizer =
     DPOptimizer (Optimizer ''sgd'') 1 1 2 ''mean'' 0 (Some (AccountantHook (1 / 4)))"

definition example_module :: module where
  "example_module =
     GradSampleModule (Module [] []) True ''mean'' [VirtualStepHook example_optimizer]"

definition rewrapped_optimizer :: optimizer where
  "rewrapped_optimizer =
     DPOptimizer (Optimizer ''sgd'') 2 1 2 ''mean'' 0 (Some (AccountantHook (1 / 4)))"


text \<open>
  Three parameter states: after a backward pass (a gradient without the noise mark and
  a per-example gradient), after a real step that was not followed by \<^verbatim>\<open>zero_grad\<close>
  (a gradient with the noise mark), and after a \<^verbatim>\<open>zero_grad\<close> that sets gradients to
  \<open>None\<close>.
\<close>

definition p_fresh :: param where
  "p_fresh = \<lparr>requires_grad = True,
              grad = Holds (Some \<lparr>data = [1], has_noise = Absent\<rparr>),
              grad_sample = Holds (Some \<lparr>data = [1], has_noise = Absent\<rparr>)\<rparr>"

definition p_stale :: param where
  "p_stale = \<lparr>requires_grad = True,
              grad = Holds (Some \<lparr>data = [1], has_noise = Holds True\<rparr>),
              grad_sample = Absent\<rparr>"




section \<open>Properties\<close>

subsection \<open>Float arithmetic\<close>

lemma binade_numeral:
  "binade (numeral k) x =
     (if 2 \<le> x then binade (pred_numeral k) (x / 2) + 1
      else if x < 1 then binade (pred_numeral k) (2 * x) - 1
      else 0)"
  by (simp add: numeral_eq_Suc)

lemma pow2_pos: "0 < pow2 e"
  by (simp add: pow2_def)

lemma round_half_even_nonneg: "0 \<le> x \<Longrightarrow> 0 \<le> round_half_even x"
  by (simp add: round_half_even_def Let_def)

lemma binary64_zero: "binary64 0 = 0"
  by (simp add: binary64_def)

lemma binary64_nonneg: "0 \<le> x \<Longrightarrow> 0 \<le> binary64 x"
proof (cases "x = 0")
  case True
  then show ?thesis by (simp add: binary64_def)
next
  case False
  assume "0 \<le> x"
  then have a: "0 \<le> \<bar>x\<bar> * pow2 (52 - binade 1100 \<bar>x\<bar>)"
    using pow2_pos[of "52 - binade 1100 \<bar>x\<bar>"] by simp
  have "0 \<le> real_of_int (round_half_even (\<bar>x\<bar> * pow2 (52 - binade 1100 \<bar>x\<bar>)))
          * pow2 (binade 1100 \<bar>x\<bar> - 52)"
    using round_half_even_nonneg[OF a] pow2_pos[of "binade 1100 \<bar>x\<bar> - 52"]
    by (intro mult_nonneg_nonneg) simp_all
  then show ?thesis
    using False \<open>0 \<le> x\<close> by (simp add: binary64_def Let_def sgn_if)
qed

text \<open>Rounding a positive number, once its binade and its rounded significand are known.\<close>

lemma binary64_eval:
  assumes "0 < x" and "binade 1100 x = e" and "round_half_even (x * pow2 (52 - e)) = m"
  shows "binary64 x = of_int m * pow2 (e - 52)"
  using assms by (simp add: binary64_def Let_def)

lemma binary64_quarter: "binary64 (1 / 4) = 1 / 4"
proof -
  have "binary64 (1 / 4) = of_int 4503599627370496 * pow2 (- 2 - 52)"
  proof (rule binary64_eval)
    show "(0::real) < 1 / 4" by simp
    show "binade 1100 (1 / 4) = - 2" by (simp add: binade_numeral)
    show "round_half_even (1 / 4 * pow2 (52 - - 2)) = 4503599627370496"
      by (simp add: pow2_def round_half_even_def Let_def)
  qed
  then show ?thesis by (simp add: pow2_def)
qed

lemma binary64_half: "binary64 (1 / 2) = 1 / 2"
proof -
  have "binary64 (1 / 2) = of_int 4503599627370496 * pow2 (- 1 - 52)"
  proof (rule binary64_eval)
    show "(0::real) < 1 / 2" by simp
    show "binade 1100 (1 / 2) = - 1" by (simp add: binade_numeral)
    show "round_half_even (1 / 2 * pow2 (52 - - 1)) = 4503599627370496"
      by (simp add: pow2_def round_half_even_def Let_def)
  qed
  then show ?thesis by (simp add: pow2_def)
qed

lemma binary64_two: "binary64 2 = 2"
proof -
  have "binary64 2 = of_int 4503599627370496 * pow2 (1 - 52)"
  proof (rule binary64_eval)
    show "(0::real) < 2" by simp
    show "binade 1100 2 = 1" by (simp add: binade_numeral)
    show "round_half_even (2 * pow2 (52 - 1)) = 4503599627370496"
      by (simp add: pow2_def round_half_even_def Let_def)
  qed
  then show ?thesis by (simp add: pow2_def)
qed

lemma binary64_five: "binary64 5 = 5"
proof -
  have "binary64 5 = of_int 5629499534213120 * pow2 (2 - 52)"
  proof (rule binary64_eval)
    show "(0::real) < 5" by simp
    show "binade 1100 5 = 2" by (simp add: binade_numeral)
    show "round_half_even (5 * pow2 (52 - 2)) = 5629499534213120"
      by (simp add: pow2_def round_half_even_def Let_def)
  qed
  then show ?thesis by (simp add: pow2_def)
qed

lemma binary64_five_quarters: "binary64 (5 / 4) = 5 / 4"
proof -
  have "binary64 (5 / 4) = of_int 5629499534213120 * pow2 (0 - 52)"
  proof (rule binary64_eval)
    show "(0::real) < 5 / 4" by simp
    show "binade 1100 (5 / 4) = 0" by (simp add: binade_numeral)
    show "round_half_even (5 / 4 * pow2 (52 - 0)) = 5629499534213120"
      by (simp add: pow2_def round_half_even_def Let_def)
  qed
  then show ?thesis by (simp add: pow2_def)
qed

lemma binary64_five_halves: "binary64 (5 / 2) = 5 / 2"
proof -
  have "binary64 (5 / 2) = of_int 5629499534213120 * pow2 (1 - 52)"
  proof (rule binary64_eval)
    show "(0::real) < 5 / 2" by simp
    show "binade 1100 (5 / 2) = 1" by (simp add: binade_numeral)
    show "round_half_even (5 / 2 * pow2 (52 - 1)) = 5629499534213120"
      by (simp add: pow2_def round_half_even_def Let_def)
  qed
  then show ?thesis by (simp add: pow2_def)
qed

lemma binary64_ten: "binary64 10 = 10"
proof -
  have "binary64 10 = of_int 5629499534213120 * pow2 (3 - 52)"
  proof (rule binary64_eval)
    show "(0::real) < 10" by simp
    show "binade 1100 10 = 3" by (simp add: binade_numeral)
    show "round_half_even (10 * pow2 (52 - 3)) = 5629499534213120"
      by (simp add: pow2_def round_half_even_def Let_def)
  qed
  then show ?thesis by (simp add: pow2_def)
qed

lemma binary64_49: "binary64 49 = 49"
proof -
  have "binary64 49 = of_int 6896136929411072 * pow2 (5 - 52)"
  proof (rule binary64_eval)
    show "(0::real) < 49" by simp
    show "binade 1100 49 = 5" by (simp add: binade_numeral)
    show "round_half_even (49 * pow2 (52 - 5)) = 6896136929411072"
      by (simp add: pow2_def round_half_even_def Let_def)
  qed
  then show ?thesis by (simp add: pow2_def)
qed

lemma binary64_49th: "binary64 (1 / 49) = 5882252574524729 / 288230376151711744"
proof -
  have "binary64 (1 / 49) = of_int 5882252574524729 * pow2 (- 6 - 52)"
  proof (rule binary64_eval)
    show "(0::real) < 1 / 49" by simp
    show "binade 1100 (1 / 49) = - 6" by (simp add: binade_numeral)
    show "round_half_even (1 / 49 * pow2 (52 - - 6)) = 5882252574524729"
      by (simp add: pow2_def round_half_even_def Let_def)
  qed
  then show ?thesis by (simp add: pow2_def)
qed

lemma binary64_49_times_49th:
  "binary64 (49 * (5882252574524729 / 288230376151711744))
     = 9007199254740991 / 9007199254740992"
proof -
  have "binary64 (49 * (5882252574524729 / 288230376151711744))
          = of_int 9007199254740991 * pow2 (- 1 - 52)"
  proof (rule binary64_eval)
    show "(0::real) < 49 * (5882252574524729 / 288230376151711744)" by simp
    show "binade 1100 (49 * (5882252574524729 / 288230376151711744)) = - 1"
      by (simp add: binade_numeral)
    show "round_half_even (49 * (5882252574524729 / 288230376151711744) * pow2 (52 - - 1))
            = 9007199254740991"
      by (simp add: pow2_def round_half_even_def Let_def)
  qed
  then show ?thesis by (simp add: pow2_def)
qed

text \<open>The float operations at the inputs used below.\<close>

lemma float_quarter: "float_div_nat 1 4 = 1 / 4" "float_div_nat (Suc 0) 4 = 1 / 4"
  by (simp_all add: float_div_nat_def binary64_quarter)

lemma float_half: "float_div_nat 1 2 = 1 / 2" "float_div_nat (Suc 0) 2 = 1 / 2"
  by (simp_all add: float_div_nat_def binary64_half)

lemma float_of_nat_values:
  "float_of_nat 0 = 0" "float_of_nat 2 = 2" "float_of_nat 5 = 5" "float_of_nat 10 = 10"
  "float_of_nat (Suc (Suc 0)) = 2" "float_of_nat (Suc (Suc (Suc (Suc (Suc 0))))) = 5"
  by (simp_all add: float_of_nat_def binary64_zero binary64_two binary64_five binary64_ten)

lemma float_mul_values:
  "float_mul 10 (1 / 4) = 5 / 2" "float_mul 10 (1 / 2) = 5"
  "float_mul (1 / 4) 2 = 1 / 2" "float_mul (1 / 4) 5 = 5 / 4"
  by (simp_all add: float_mul_def binary64_five_halves binary64_five binary64_half
      binary64_five_quarters)

lemma float_mul_zero: "float_mul x 0 = 0"
  by (simp add: float_mul_def binary64_zero)

lemma float_nonneg:
  "0 \<le> float_div_nat a b" "0 \<le> float_of_nat n"
  "0 \<le> x \<Longrightarrow> 0 \<le> y \<Longrightarrow> 0 \<le> float_mul x y"
  by (simp_all add: float_div_nat_def float_of_nat_def float_mul_def binary64_nonneg)

lemma py_int_nonneg: "0 \<le> x \<Longrightarrow> py_int x = \<lfloor>x\<rfloor>"
  by (simp add: py_int_def)

lemma expected_batch_size_floor:
  "py_int (float_mul (float_of_nat d) (float_div_nat a n))
     = \<lfloor>float_mul (float_of_nat d) (float_div_nat a n)\<rfloor>"
  by (simp add: py_int_nonneg float_nonneg)

text \<open>
  The product is rounded: 49 items in 49 batches give
  \<^verbatim>\<open>int(49 * (1 / 49)) = int(0.9999999999999999) = 0\<close>, not 1.
\<close>

lemma expected_batch_size_49:
  "py_int (float_mul (float_of_nat 49) (float_div_nat 1 49)) = 0"
proof -
  have q: "float_div_nat 1 49 = 5882252574524729 / 288230376151711744"
    by (simp add: float_div_nat_def binary64_49th)
  have n: "float_of_nat 49 = 49"
    by (simp add: float_of_nat_def binary64_49)
  have v: "float_mul (float_of_nat 49) (float_div_nat 1 49) = 9007199254740991 / 9007199254740992"
    unfolding q n float_mul_def by (rule binary64_49_times_49th)
  show ?thesis unfolding v by (simp add: py_int_def)
qed

subsection \<open>Auxiliary facts\<close>



lemma parameters_register: "parameters (register_forward_pre_hook h m) = parameters m"
  by (cases m) simp_all

lemma forward_pre_hooks_register:
  "forward_pre_hooks (register_forward_pre_hook h m) = forward_pre_hooks m @ [h]"
  by (cases m) simp_all

lemma prepare_model_any_engine:
  "prepare_model self m bf lr = prepare_model self' m bf lr"
  by (cases m) simp_all

lemma prepare_optimizer_any_engine:
  "prepare_optimizer self opt nm mgn ebs lr = prepare_optimizer self' opt nm mgn ebs lr"
  by (simp add: prepare_optimizer_def)

lemma prepare_data_loader_secure_mode:
  "prepare_data_loader W (self\<lparr>secure_mode := b\<rparr>) dl = prepare_data_loader W self dl"
  by (simp add: prepare_data_loader_def)

lemma make_private_secure_mode:
  "make_private W (self\<lparr>secure_mode := b\<rparr>) m opt dl nm mgn bf lr
     = make_private W self m opt dl nm mgn bf lr"
  unfolding make_private_def prepare_data_loader_secure_mode
    prepare_model_any_engine[of "self\<lparr>secure_mode := b\<rparr>" m bf lr self]
    prepare_optimizer_any_engine[of "self\<lparr>secure_mode := b\<rparr>" opt nm mgn _ lr self]
  by (rule refl)

text \<open>What a successful \<^verbatim>\<open>make_private\<close> returns.\<close>

lemma make_private_Inr:
  assumes "make_private W self m opt dl nm mgn bf lr = Inr (m', opt', dl')"
  shows "dl' = prepare_data_loader W self dl"
    and "len dl' \<noteq> 0"
    and "opt' = DPOptimizer (case opt of DPOptimizer inner a b c d e f \<Rightarrow> inner | Optimizer n \<Rightarrow> opt)
                  nm mgn
                  (py_int (float_mul (float_of_nat (dataset_len dl')) (float_div_nat 1 (len dl'))))
                  lr 0 (Some (AccountantHook (float_div_nat 1 (len dl'))))"
    and "m' = register_forward_pre_hook (VirtualStepHook opt') (prepare_model self m bf lr)"
  using assms
  by (auto simp: make_private_def Let_def prepare_optimizer_def new_DPOptimizer_def
      split: if_splits)

lemma prepare_data_loader_example:
  "prepare_data_loader keep_length (init PrivacyEngine False) (DataLoader 4 10) = DPDataLoader 4 10"
  by (simp add: prepare_data_loader_def init_def keep_length_def)

lemma make_private_example:
  "make_private keep_length (init PrivacyEngine False) (Module [] []) (Optimizer ''sgd'')
      (DataLoader 4 10) 1 1 True ''mean''
   = Inr (example_module, example_optimizer, DPDataLoader 4 10)"
  by (simp add: make_private_def Let_def prepare_data_loader_example
      prepare_optimizer_def new_DPOptimizer_def py_int_def example_optimizer_def
      example_module_def float_quarter float_of_nat_values float_mul_values)

text \<open>The model agrees with the source on 49 items in 49 batches.\<close>

lemma make_private_49:
  "make_private keep_length (init PrivacyEngine False) (Module [] []) (Optimizer ''sgd'')
      (DataLoader 49 49) 1 1 True ''mean'' = Inr (m', opt', dl') \<Longrightarrow>
   expected_batch_size opt' = 0"
proof -
  assume mp: "make_private keep_length (init PrivacyEngine False) (Module [] []) (Optimizer ''sgd'')
      (DataLoader 49 49) 1 1 True ''mean'' = Inr (m', opt', dl')"
  have d: "dl' = DPDataLoader 49 49"
    using make_private_Inr(1)[OF mp] by (simp add: prepare_data_loader_def init_def keep_length_def)
  have "expected_batch_size opt'
          = py_int (float_mul (float_of_nat (dataset_len dl')) (float_div_nat 1 (len dl')))"
    using make_private_Inr(3)[OF mp] by simp
  also have "\<dots> = py_int (float_mul (float_of_nat 49) (float_div_nat 1 49))"
    unfolding d by simp
  finally show ?thesis by (simp only: expected_batch_size_49)
qed



text \<open>
  The hook of the source has no guard of its own: run with no accumulated iteration it
  hands the accountant a sample rate of 0, which the accountant rejects. That a real
  step without accumulation is harmless is the optimizer's doing.
\<close>

lemma accountant_hook_zero_iterations:
  "accountant_hook sr eng (DPOptimizer opt nm mgn ebs lr 0 h) = Inl InvalidParameterError"
  by (simp add: accountant_hook_def accountant_step_def float_of_nat_values float_mul_zero)

subsection \<open>The pre-forward hook\<close>


text \<open>
  The loop stops at the first trainable parameter that is stale or has
  \<^verbatim>\<open>grad_sample\<close>, and that parameter alone decides.
\<close>

lemma scan_parameters_first:
  assumes "\<forall>p \<in> set ps. requires_grad p \<longrightarrow> \<not> stale p \<and> grad_sample p = Absent"
    and "requires_grad x"
  shows "scan_parameters (ps @ x # qs)
           = (if stale x then Inl (ValueError ''Not calling zero_grad breaks accounting'')
              else if grad_sample x \<noteq> Absent then Inr True
              else scan_parameters qs)"
  using assms by (induction ps) auto

lemma scan_parameters_True:
  "scan_parameters ps = Inr True \<Longrightarrow> \<exists>p \<in> set ps. requires_grad p \<and> grad_sample p \<noteq> Absent"
  by (induction ps) (auto split: if_splits)


text \<open>
  So the hook's own check does not see a stale parameter that stands behind a trainable
  parameter with \<^verbatim>\<open>grad_sample\<close>: the loop has left (\<^verbatim>\<open>break\<close>) before it. What
  happens then is up to \<^verbatim>\<open>optimizer.virtual_step()\<close>.
\<close>

lemma scan_parameters_leaves_early: "scan_parameters [p_fresh, p_stale] = Inr True"
  by (simp add: p_fresh_def p_stale_def stale_def)

lemma virtual_step_hook_after_break:
  "scan_parameters (parameters m) = Inr True \<Longrightarrow>
   virtual_step_hook reset m optim
     = (case virtual_step optim (parameters m) of
          Inl e \<Rightarrow> Inl e
        | Inr (optim', ps') \<Rightarrow> Inr (zero_grad reset (put_parameters ps' m), optim'))"
  by (simp add: virtual_step_hook_def)



text \<open>With the stale parameter first the error is the hook's own.\<close>

lemma virtual_step_hook_raises_stale_first:
  "virtual_step_hook reset (GradSampleModule (Module [p_stale, p_fresh] []) True ''mean'' []) optim
     = Inl (ValueError ''Not calling zero_grad breaks accounting'')"
  by (simp add: virtual_step_hook_def p_fresh_def p_stale_def stale_def)

subsection \<open>Accounting of steps\<close>




text \<open>
  Claim C6. A real step with no accumulated iteration returns the engine and the optimizer
  as they were: it does not raise and the ledger is unchanged. This holds for every
  \<^verbatim>\<open>DPOptimizer\<close> whose \<open>accumulated_iterations\<close> is 0, in particular for the optimizer
  \<^verbatim>\<open>make_private\<close> returns, before any backward pass.
\<close>

theorem step_without_accumulation_is_noop:
  "step eng (DPOptimizer opt nm mgn ebs lr 0 h) = Inr (eng, DPOptimizer opt nm mgn ebs lr 0 h) \<and>
   (make_private W self m opt0 dl nm' mgn' bf lr' = Inr (m', opt', dl') \<longrightarrow>
      step eng opt' = Inr (eng, opt') \<and>
      run (eng, opt') [Step, Step] = Inr (eng, opt'))"
proof -
  have "step eng opt' = Inr (eng, opt') \<and> run (eng, opt') [Step, Step] = Inr (eng, opt')"
    if "make_private W self m opt0 dl nm' mgn' bf lr' = Inr (m', opt', dl')"
    using make_private_Inr(3)[OF that] by simp
  then show ?thesis by simp
qed

theorem step_without_accumulation_is_noop_witness:
  "step (init PrivacyEngine False) example_optimizer
     = Inr (init PrivacyEngine False, example_optimizer) \<and>
   length (steps (accountant (init PrivacyEngine False))) = 0"
  using step_without_accumulation_is_noop
          [of "init PrivacyEngine False" "Optimizer ''sgd''" 1 1 2 "''mean''"
              "Some (AccountantHook (1 / 4))" keep_length "init PrivacyEngine False"
              "Module [] []" "Optimizer ''sgd''" "DataLoader 4 10" 1 1 True "''mean''"
              example_module example_optimizer "DPDataLoader 4 10"]
    make_private_example
  by (simp add: init_def RDPAccountant_def)

subsection \<open>What make_private derives and hands on\<close>

text \<open>
  Claim C3. For a data loader whose wrapped form has at least one batch,
  \<^verbatim>\<open>make_private\<close> succeeds and returns the wrapped loader; with
  \<open>sample_rate = 1 / number_of_batches\<close> (the float quotient) taken from the wrapped
  loader, the optimizer it returns has
  \<open>expected_batch_size = floor(dataset_size * sample_rate)\<close> (the floor of the float
  product) and carries the accountant hook closed over that same \<open>sample_rate\<close>.
\<close>

theorem make_private_sampling_parameters:
  assumes "0 < len (prepare_data_loader W self dl)"
  shows "\<exists>m' opt'.
           make_private W self m opt dl nm mgn bf lr
             = Inr (m', opt', prepare_data_loader W self dl) \<and>
           expected_batch_size opt'
             = \<lfloor>float_mul (float_of_nat (dataset_len (prepare_data_loader W self dl)))
                  (float_div_nat 1 (len (prepare_data_loader W self dl)))\<rfloor> \<and>
           step_hook opt'
             = Some (AccountantHook (float_div_nat 1 (len (prepare_data_loader W self dl)))) \<and>
           forward_pre_hooks m'
             = forward_pre_hooks (prepare_model self m bf lr) @ [VirtualStepHook opt']"
  using assms
  by (simp add: make_private_def Let_def prepare_optimizer_def new_DPOptimizer_def
      expected_batch_size_floor forward_pre_hooks_register)

theorem make_private_sampling_parameters_witness:
  "make_private keep_length (init PrivacyEngine False) (Module [] []) (Optimizer ''sgd'')
      (DataLoader 4 10) 1 1 True ''mean''
     = Inr (example_module, example_optimizer, DPDataLoader 4 10) \<and>
   expected_batch_size example_optimizer = \<lfloor>float_mul (float_of_nat 10) (float_div_nat 1 4)\<rfloor> \<and>
   step_hook example_optimizer = Some (AccountantHook (float_div_nat 1 4))"
proof -
  have h: "0 < len (prepare_data_loader keep_length (init PrivacyEngine False) (DataLoader 4 10))"
    by (simp add: prepare_data_loader_example)
  show ?thesis
    using make_private_sampling_parameters
            [OF h, of "Module [] []" "Optimizer ''sgd''" 1 1 True "''mean''"]
      make_private_example
    by (simp add: prepare_data_loader_example example_optimizer_def)
qed

text \<open>
  Claim C8. \<^verbatim>\<open>make_private\<close> never raises InvalidParameterError, whatever the noise
  multiplier and the clipping norm are; whenever the wrapped loader has a batch it
  returns, and the optimizer it returns holds both values as they were passed.
\<close>

theorem make_private_no_validation:
  "make_private W self m opt dl nm mgn bf lr \<noteq> Inl InvalidParameterError \<and>
   (0 < len (prepare_data_loader W self dl) \<longrightarrow>
      (\<exists>m' opt' dl'. make_private W self m opt dl nm mgn bf lr = Inr (m', opt', dl') \<and>
         noise_multiplier opt' = nm \<and> max_grad_norm opt' = mgn))"
  by (simp add: make_private_def Let_def prepare_optimizer_def new_DPOptimizer_def)

theorem make_private_no_validation_witness:
  "make_private keep_length (init PrivacyEngine False) (Module [] []) (Optimizer ''sgd'')
      (DataLoader 4 10) 0 (- 1) True ''mean''
     = Inr (GradSampleModule (Module [] []) True ''mean''
              [VirtualStepHook
                 (DPOptimizer (Optimizer ''sgd'') 0 (- 1) 2 ''mean'' 0
                    (Some (AccountantHook (1 / 4))))],
            DPOptimizer (Optimizer ''sgd'') 0 (- 1) 2 ''mean'' 0 (Some (AccountantHook (1 / 4))),
            DPDataLoader 4 10)"
  using make_private_no_validation
          [of keep_length "init PrivacyEngine False" "Module [] []" "Optimizer ''sgd''"
              "DataLoader 4 10" 0 "- 1" True "''mean''"]
  by (simp add: prepare_data_loader_example make_private_def Let_def prepare_optimizer_def
      new_DPOptimizer_def py_int_def float_quarter float_of_nat_values float_mul_values)

subsection \<open>Wrapping what is already wrapped\<close>

text \<open>
  Claim C4, as stated: a model, an optimizer and a data loader that are already wrapped
  come back from \<^verbatim>\<open>make_private\<close> as the existing wrappers. This fails for the
  optimizer: passing the wrapped \<open>example_optimizer\<close> (noise multiplier 1) with a noise
  multiplier of 2 returns another \<^verbatim>\<open>DPOptimizer\<close>.
\<close>

theorem make_private_replaces_wrapped_optimizer:
  "make_private keep_length (init PrivacyEngine False) example_module example_optimizer
      (DPDataLoader 4 10) 2 1 True ''mean''
     = Inr (register_forward_pre_hook (VirtualStepHook rewrapped_optimizer) example_module,
            rewrapped_optimizer, DPDataLoader 4 10) \<and>
   rewrapped_optimizer \<noteq> example_optimizer"
  by (simp add: make_private_def Let_def prepare_data_loader_def init_def
      prepare_optimizer_def new_DPOptimizer_def py_int_def example_optimizer_def
      example_module_def rewrapped_optimizer_def float_quarter float_of_nat_values
      float_mul_values)

text \<open>
  Claim C4, amended. A model that is a \<^verbatim>\<open>GradSampleModule\<close> and a data loader that is
  a \<^verbatim>\<open>DPDataLoader\<close> are returned as they are by the preparation steps, and the unsafe
  engine returns every data loader as it is. An optimizer that is a \<^verbatim>\<open>DPOptimizer\<close>
  is unwrapped, and the optimizer it wrapped is wrapped in a new \<^verbatim>\<open>DPOptimizer\<close>
  built from the arguments of the call: there is no double wrapping, and the previous
  wrapper's settings, counter and hook are not kept. Through \<^verbatim>\<open>make_private\<close> the
  existing model wrapper gains one more pre-forward hook and is not wrapped again.
\<close>

theorem make_private_rewrapping:
  "prepare_model self (GradSampleModule m0 bf0 lr0 hs) bf lr = GradSampleModule m0 bf0 lr0 hs \<and>
   prepare_data_loader W self (DPDataLoader n d) = DPDataLoader n d \<and>
   prepare_data_loader W (self\<lparr>cls := PrivacyEngineUnsafeKeepDataLoader\<rparr>) dl = dl \<and>
   prepare_optimizer self (DPOptimizer inner nm0 mgn0 ebs0 l0 k0 h0) nm mgn ebs lr
     = DPOptimizer inner nm mgn ebs lr 0 None \<and>
   (0 < n \<longrightarrow>
      make_private W self (GradSampleModule m0 bf0 lr0 hs)
          (DPOptimizer inner nm0 mgn0 ebs0 l0 k0 h0) (DPDataLoader n d) nm mgn bf lr
        = Inr (GradSampleModule m0 bf0 lr0
                 (hs @ [VirtualStepHook
                          (DPOptimizer inner nm mgn
                             \<lfloor>float_mul (float_of_nat d) (float_div_nat 1 n)\<rfloor> lr 0
                             (Some (AccountantHook (float_div_nat 1 n))))]),
               DPOptimizer inner nm mgn \<lfloor>float_mul (float_of_nat d) (float_div_nat 1 n)\<rfloor> lr 0
                 (Some (AccountantHook (float_div_nat 1 n))),
               DPDataLoader n d))"
proof -
  have p: "prepare_data_loader W self (DPDataLoader n d) = DPDataLoader n d"
    by (simp add: prepare_data_loader_def split: engine_class.split)
  have u: "prepare_data_loader W (self\<lparr>cls := PrivacyEngineUnsafeKeepDataLoader\<rparr>) dl = dl"
    by (simp add: prepare_data_loader_def)
  have w: "prepare_optimizer self (DPOptimizer inner nm0 mgn0 ebs0 l0 k0 h0) nm' mgn' ebs' lr'
             = DPOptimizer inner nm' mgn' ebs' lr' 0 None" for nm' mgn' ebs' lr'
    by (simp add: prepare_optimizer_def new_DPOptimizer_def)
  show ?thesis
    by (simp add: p u w make_private_def Let_def expected_batch_size_floor)
qed

theorem make_private_rewrapping_witness:
  "make_private keep_length (init PrivacyEngine False) example_module example_optimizer
      (DPDataLoader 2 10) 1 1 True ''mean''
     = Inr (GradSampleModule (Module [] []) True ''mean''
              [VirtualStepHook example_optimizer,
               VirtualStepHook
                 (DPOptimizer (Optimizer ''sgd'') 1 1 5 ''mean'' 0
                    (Some (AccountantHook (1 / 2))))],
            DPOptimizer (Optimizer ''sgd'') 1 1 5 ''mean'' 0 (Some (AccountantHook (1 / 2))),
            DPDataLoader 2 10)"
  using make_private_rewrapping
          [of "init PrivacyEngine False" "Module [] []" True "''mean''"
              "[VirtualStepHook example_optimizer]" True "''mean''" keep_length 2 10
              "DataLoader 1 1" "Optimizer ''sgd''" 1 1 2 "''mean''" 0
              "Some (AccountantHook (1 / 4))" 1 1 0]
  by (simp add: example_module_def example_optimizer_def float_half float_of_nat_values
      float_mul_values)

subsection \<open>Calibrated noise\<close>

text \<open>
  Claim C5, as stated: the calibrator is called with the step count
  \<open>epochs * number_of_batches\<close>. It is not: the source passes \<^verbatim>\<open>epochs\<close> itself. With
  the calibrator \<open>schedule_echo\<close>, 5 epochs and 4 batches, the noise multiplier that
  reaches \<^verbatim>\<open>make_private\<close> is 5, the number of epochs, and not 20.
\<close>

theorem calibrator_receives_epochs:
  "make_private_with_epsilon schedule_echo keep_length (init PrivacyEngine False)
      (Module [] []) (Optimizer ''sgd'') (DataLoader 4 10) 3 (1 / 2) 5 1 True ''mean''
      None None None
     = make_private keep_length (init PrivacyEngine False) (Module [] []) (Optimizer ''sgd'')
         (DataLoader 4 10) 5 1 True ''mean'' \<and>
   make_private_with_epsilon schedule_echo keep_length (init PrivacyEngine False)
      (Module [] []) (Optimizer ''sgd'') (DataLoader 4 10) 3 (1 / 2) 5 1 True ''mean''
      None None None
     \<noteq> make_private keep_length (init PrivacyEngine False) (Module [] []) (Optimizer ''sgd'')
         (DataLoader 4 10) 20 1 True ''mean''"
  by (simp add: make_private_with_epsilon_def schedule_echo_def make_private_def Let_def
      prepare_data_loader_example prepare_optimizer_def new_DPOptimizer_def)

text \<open>
  Claim C5, amended. \<^verbatim>\<open>make_private_with_epsilon\<close> computes
  \<open>sample_rate = 1 / number_of_batches\<close> from the data loader it is given and calls the
  calibrator with the target \<open>\<epsilon>\<close> and \<open>\<delta>\<close>, that sample rate and the number of epochs as
  passed (not a step count), together with \<open>alphas\<close> and the two search bounds. On an
  empty loader it raises ZeroDivisionError; an error of the calibrator is raised
  unchanged; otherwise it returns what \<^verbatim>\<open>make_private\<close> returns for the calibrated noise
  multiplier and the other arguments unchanged.
\<close>

theorem make_private_with_epsilon_delegates:
  "(len dl = 0 \<longrightarrow>
      make_private_with_epsilon G W self m opt dl eps delta epochs mgn bf lr alphas smin smax
        = Inl ZeroDivisionError) \<and>
   (0 < len dl \<longrightarrow>
      (\<forall>e. G eps delta (float_div_nat 1 (len dl)) epochs alphas smin smax = Inl e \<longrightarrow>
         make_private_with_epsilon G W self m opt dl eps delta epochs mgn bf lr alphas smin smax
           = Inl e) \<and>
      (\<forall>sigma. G eps delta (float_div_nat 1 (len dl)) epochs alphas smin smax = Inr sigma \<longrightarrow>
         make_private_with_epsilon G W self m opt dl eps delta epochs mgn bf lr alphas smin smax
           = make_private W self m opt dl sigma mgn bf lr))"
  by (simp add: make_private_with_epsilon_def)

theorem make_private_with_epsilon_delegates_witness:
  "make_private_with_epsilon (fixed_sigma 1) keep_length (init PrivacyEngine False)
      (Module [] []) (Optimizer ''sgd'') (DataLoader 4 10) 3 (1 / 2) 5 1 True ''mean''
      None None None
     = Inr (example_module, example_optimizer, DPDataLoader 4 10)"
  using make_private_with_epsilon_delegates
          [of "DataLoader 4 10" "fixed_sigma 1" keep_length "init PrivacyEngine False"
              "Module [] []" "Optimizer ''sgd''" 3 "1 / 2" 5 1 True "''mean''" None None None]
    make_private_example
  by (simp add: fixed_sigma_def)

subsection \<open>Reading the privacy spent\<close>

lemma min_list_map_mono:
  fixes f g :: "'a \<Rightarrow> real"
  assumes "xs \<noteq> []" and "\<forall>x \<in> set xs. f x \<le> g x"
  shows "min_list (map f xs) \<le> min_list (map g xs)"
proof -
  have ne: "set xs \<noteq> {}" using assms(1) by simp
  have "Min (f ` set xs) \<le> Min (g ` set xs)"
  proof (rule Min.boundedI)
    show "finite (g ` set xs)" by simp
    show "g ` set xs \<noteq> {}" using ne by simp
    fix a assume "a \<in> g ` set xs"
    then obtain x where x: "x \<in> set xs" and a: "a = g x" by blast
    have "Min (f ` set xs) \<le> f x" using x by (intro Min_le) auto
    also have "\<dots> \<le> g x" using assms(2) x by blast
    finally show "Min (f ` set xs) \<le> a" using a by simp
  qed
  then show ?thesis
    using assms(1) by (simp add: min_list_Min)
qed

lemma cumulative_rdp_append:
  "cumulative_rdp rdp (ledger @ [PrivacyStep sigma q]) \<alpha>
     = cumulative_rdp rdp ledger \<alpha> + rdp \<alpha> sigma q"
  by (simp add: cumulative_rdp_def)

text \<open>
  Claim C7. For a non-empty ledger and \<open>\<delta>\<close> in \<open>(0, 1)\<close>, recording one further
  PrivacyStep with a positive noise multiplier and a sample rate in \<open>(0, 1]\<close> succeeds,
  and \<^verbatim>\<open>get_epsilon\<close> after it is not below \<^verbatim>\<open>get_epsilon\<close> before it. The per-step
  bound is a parameter; what is used of it is that it is not negative at the orders, as
  a Renyi divergence is.
\<close>

theorem get_epsilon_monotone:
  assumes "orders \<noteq> []" and "0 < delta" and "delta < 1"
    and "steps (accountant self) \<noteq> []"
    and "0 < sigma" and "0 < q" and "q \<le> 1"
    and "\<forall>\<alpha> \<in> set orders. 0 \<le> rdp \<alpha> sigma q"
  shows "\<exists>acc' e e'.
           accountant_step (accountant self) sigma q = Inr acc' \<and>
           steps acc' = steps (accountant self) @ [PrivacyStep sigma q] \<and>
           get_epsilon rdp orders self delta alphas = Inr e \<and>
           get_epsilon rdp orders (self\<lparr>accountant := acc'\<rparr>) delta alphas' = Inr e' \<and>
           e \<le> e'"
proof -
  let ?L = "steps (accountant self)"
  let ?acc' = "(accountant self)\<lparr>steps := ?L @ [PrivacyStep sigma q]\<rparr>"
  have a: "accountant_step (accountant self) sigma q = Inr ?acc'"
    using assms(5-7) by (simp add: accountant_step_def)
  have e: "get_epsilon rdp orders self delta alphas
             = Inr (min_list (map (rdp_to_dp rdp ?L delta) orders))"
    using assms(2-4) by (simp add: get_epsilon_def compute_epsilon_def)
  have e': "get_epsilon rdp orders (self\<lparr>accountant := ?acc'\<rparr>) delta alphas'
             = Inr (min_list (map (rdp_to_dp rdp (?L @ [PrivacyStep sigma q]) delta) orders))"
    using assms(2,3) by (simp add: get_epsilon_def compute_epsilon_def)
  have "\<forall>\<alpha> \<in> set orders.
          rdp_to_dp rdp ?L delta \<alpha> \<le> rdp_to_dp rdp (?L @ [PrivacyStep sigma q]) delta \<alpha>"
    using assms(8) by (simp add: rdp_to_dp_def cumulative_rdp_append)
  then have "min_list (map (rdp_to_dp rdp ?L delta) orders)
               \<le> min_list (map (rdp_to_dp rdp (?L @ [PrivacyStep sigma q]) delta) orders)"
    by (rule min_list_map_mono[OF assms(1)])
  then show ?thesis using a e e' by simp
qed

theorem get_epsilon_monotone_witness:
  "\<exists>e e'.
     get_epsilon gaussian_rdp [2, 3]
       ((init PrivacyEngine False)\<lparr>accountant := \<lparr>steps = [PrivacyStep 1 1]\<rparr>\<rparr>) (1 / 2) None = Inr e \<and>
     get_epsilon gaussian_rdp [2, 3]
       ((init PrivacyEngine False)\<lparr>accountant := \<lparr>steps = [PrivacyStep 1 1, PrivacyStep 1 1]\<rparr>\<rparr>)
       (1 / 2) None = Inr e' \<and>
     e \<le> e'"
proof -
  have h: "\<forall>\<alpha> \<in> set [2, 3 :: real]. 0 \<le> gaussian_rdp \<alpha> 1 1"
    by (simp add: gaussian_rdp_def)
  show ?thesis
    using get_epsilon_monotone
            [of "[2, 3]" "1 / 2"
                "(init PrivacyEngine False)\<lparr>accountant := \<lparr>steps = [PrivacyStep 1 1]\<rparr>\<rparr>"
                1 1 gaussian_rdp None None, OF _ _ _ _ _ _ _ h]
    by (auto simp: accountant_step_def init_def)
qed

text \<open>
  Claim C10. \<^verbatim>\<open>get_epsilon\<close> returns the same for every value of \<open>alphas\<close>, the
  default \<open>None\<close> included: the result depends on \<open>\<delta>\<close> and the accountant only.
\<close>

theorem get_epsilon_ignores_alphas:
  "get_epsilon rdp orders self delta alphas = get_epsilon rdp orders self delta None"
  by (simp add: get_epsilon_def)

subsection \<open>The secure-mode flag\<close>

text \<open>
  Claim C9. The constructor stores \<open>secure_mode\<close>, two engines built with different
  flags differ in that field only, and changing the field of any engine changes the
  result of none of \<^verbatim>\<open>make_private\<close>, \<^verbatim>\<open>make_private_with_epsilon\<close> and
  \<^verbatim>\<open>get_epsilon\<close>.
\<close>

theorem secure_mode_never_read:
  "make_private W (self\<lparr>secure_mode := b\<rparr>) m opt dl nm mgn bf lr
     = make_private W self m opt dl nm mgn bf lr \<and>
   make_private_with_epsilon G W (self\<lparr>secure_mode := b\<rparr>) m opt dl eps delta epochs mgn bf lr
       alphas smin smax
     = make_private_with_epsilon G W self m opt dl eps delta epochs mgn bf lr alphas smin smax \<and>
   get_epsilon rdp orders (self\<lparr>secure_mode := b\<rparr>) delta alphas
     = get_epsilon rdp orders self delta alphas \<and>
   secure_mode (init c b) = b \<and>
   (init c b)\<lparr>secure_mode := b'\<rparr> = init c b'"
  by (simp add: make_private_secure_mode make_private_with_epsilon_def get_epsilon_def init_def
      cong: sum.case_cong)

end
